theory Spec2Isabelle
  imports Complex_Main "HOL-Library.Product_Lexorder"
begin

section \<open>Data model\<close>

text \<open>
  The script \<^verbatim>\<open>SentimentAnalysisPractice.py\<close> is a straight-line pipeline over
  pandas tables. A table is modelled as the list of its rows in index order; all tables of
  the script carry a \<^verbatim>\<open>RangeIndex\<close>, so the index label of a row is its position.

  A row of the loaded table \<^verbatim>\<open>avatar\<close> (line 16) carries the four columns the script
  reads. \<^verbatim>\<open>character_words\<close> is text (a list of ASCII characters). The other three are
  numeric columns, in which \<^verbatim>\<open>read_csv\<close> stores an empty field as the missing value
  \<^verbatim>\<open>NaN\<close>: \<open>None\<close> is the missing value. A season or chapter number is an integer of
  absolute value below \<open>2 ^ 53\<close>, and a rating is an exact rational.

  pandas holds a column of integers as an integer column when every field is present, and
  as a float column when a field is missing: whether a column of \<^verbatim>\<open>avatar\<close> has a missing
  value decides how its numbers are rendered later (\<open>has_missing\<close>).
\<close>

record avatar_row =
  book_num :: "int option"
  chapter_num :: "int option"
  imdb_rating :: "rat option"
  character_words :: string

definition has_missing :: "(avatar_row \<Rightarrow> 'a option) \<Rightarrow> avatar_row list \<Rightarrow> bool" where
  "has_missing column rows = list_ex (\<lambda>r. column r = None) rows"

text \<open>A row of \<^verbatim>\<open>new_df\<close> after lines 23 and 24.\<close>

record episode =
  ep_book_num :: int
  ep_chapter_num :: int
  ep_imdb_rating :: rat
  ep_character_words :: string
  season_episode :: string

type_synonym group_key = "int \<times> int \<times> rat"

section \<open>Rendering numbers: \<^verbatim>\<open>astype(str)\<close>\<close>

text \<open>
  \<^verbatim>\<open>astype(str)\<close> applies Python's \<^verbatim>\<open>str\<close> to each value of a column. On an integer
  that gives the decimal digits, most significant first, with a leading minus sign for a
  negative number. On a float that holds an integer of the data model it gives the same
  digits followed by \<^verbatim>\<open>.0\<close>.
\<close>

definition digit_char :: "nat \<Rightarrow> char" where
  "digit_char d = ''0123456789'' ! d"

fun str_nat :: "nat \<Rightarrow> string" where
  "str_nat n = (if n < 10 then [digit_char n] else str_nat (n div 10) @ [digit_char (n mod 10)])"

declare str_nat.simps [simp del]

definition str_int :: "int \<Rightarrow> string" where
  "str_int i = (if i < 0 then CHR ''-'' # str_nat (nat (- i)) else str_nat (nat i))"

definition str_float :: "int \<Rightarrow> string" where
  "str_float i = str_int i @ ''.0''"

definition astype_str :: "bool \<Rightarrow> int \<Rightarrow> string" where
  "astype_str float_column i = (if float_column then str_float i else str_int i)"

section \<open>Aggregator (lines 23 and 24)\<close>

text \<open>
  \<^verbatim>\<open>avatar.groupby(['book_num', 'chapter_num', 'imdb_rating'])['character_words'].sum().reset_index()\<close>

  \<^verbatim>\<open>groupby\<close> runs with its defaults \<^verbatim>\<open>sort=True\<close> and \<^verbatim>\<open>dropna=True\<close>: a row whose key
  has a missing component belongs to no group, the groups are accumulated in one pass over
  the rows, and the result lists them in ascending (lexicographic) key order.
  \<^verbatim>\<open>sum\<close> on a text column adds the strings of a group with \<^verbatim>\<open>+\<close>, in row order.
\<close>

definition group_key_of :: "avatar_row \<Rightarrow> group_key option" where
  "group_key_of r =
     (case book_num r of
        None \<Rightarrow> None
      | Some b \<Rightarrow>
          (case chapter_num r of
             None \<Rightarrow> None
           | Some c \<Rightarrow>
               (case imdb_rating r of
                  None \<Rightarrow> None
                | Some x \<Rightarrow> Some (b, c, x))))"

fun add_to_group :: "'k \<Rightarrow> string \<Rightarrow> ('k \<times> string) list \<Rightarrow> ('k \<times> string) list" where
  "add_to_group k w [] = [(k, w)]"
| "add_to_group k w ((k', t) # gs) =
     (if k = k' then (k', t @ w) # gs else (k', t) # add_to_group k w gs)"

fun group_sum :: "(group_key \<times> string) list \<Rightarrow> avatar_row list \<Rightarrow> (group_key \<times> string) list" where
  "group_sum acc [] = acc"
| "group_sum acc (r # rs) =
     group_sum (case group_key_of r of
                  None \<Rightarrow> acc
                | Some k \<Rightarrow> add_to_group k (character_words r) acc) rs"

definition groupby_sum :: "avatar_row list \<Rightarrow> (group_key \<times> string) list" where
  "groupby_sum rows = sort_key fst (group_sum [] rows)"

text \<open>
  Line 24 adds the identifier column, computed from the two key columns of \<^verbatim>\<open>new_df\<close>:
  \<^verbatim>\<open>new_df['book_num'].astype(str) + '-' + new_df['chapter_num'].astype(str)\<close>.
  A key column of \<^verbatim>\<open>new_df\<close> has the type of the column of \<^verbatim>\<open>avatar\<close> it comes from.
\<close>

definition with_season_episode :: "bool \<Rightarrow> bool \<Rightarrow> group_key \<times> string \<Rightarrow> episode" where
  "with_season_episode book_float chapter_float g =
     (case g of ((b, c, x), w) \<Rightarrow>
        \<lparr>ep_book_num = b, ep_chapter_num = c, ep_imdb_rating = x, ep_character_words = w,
         season_episode = astype_str book_float b @ ''-'' @ astype_str chapter_float c\<rparr>)"

definition aggregator :: "avatar_row list \<Rightarrow> episode list" where
  "aggregator rows =
     map (with_season_episode (has_missing book_num rows) (has_missing chapter_num rows))
       (groupby_sum rows)"

section \<open>Output file (line 25)\<close>

text \<open>
  \<^verbatim>\<open>new_df.to_csv('new.df.csv')\<close> opens the file for writing, which replaces whatever was
  stored under that name, and writes the table with the default \<^verbatim>\<open>index=True\<close>: the
  first column holds the row index and its header field is empty, since the index has no
  name. The file system is a map from file names to contents, and a CSV file is its header
  line and its data lines, each split into fields; quoting and number formatting are not
  modelled.
\<close>

datatype cell = IntCell int | NumCell rat | StrCell string

record csv_file =
  header :: "string list"
  body :: "cell list list"

type_synonym files = "string \<rightharpoonup> csv_file"

definition new_df_columns :: "string list" where
  "new_df_columns =
     [''book_num'', ''chapter_num'', ''imdb_rating'', ''character_words'', ''season-episode'']"

definition csv_line :: "nat \<times> episode \<Rightarrow> cell list" where
  "csv_line p =
     (case p of (i, e) \<Rightarrow>
        [IntCell (int i), IntCell (ep_book_num e), IntCell (ep_chapter_num e),
         NumCell (ep_imdb_rating e), StrCell (ep_character_words e),
         StrCell (season_episode e)])"

definition to_csv :: "episode list \<Rightarrow> string \<Rightarrow> files \<Rightarrow> files" where
  "to_csv df name fs =
     fs(name \<mapsto> \<lparr>header = [] # new_df_columns, body = map csv_line (enumerate 0 df)\<rparr>)"

section \<open>Text normalizer (lines 37 to 48)\<close>

text \<open>
  Text is ASCII. \<^verbatim>\<open>str.lower\<close> maps the 26 capital letters to the small ones and leaves
  every other character alone. In the pattern \<^verbatim>\<open>[^\w\s]\<close>, \<^verbatim>\<open>\w\<close> matches letters,
  digits and the underscore, and \<^verbatim>\<open>\s\<close> matches the characters for which
  \<^verbatim>\<open>str.isspace\<close> holds: space, the controls 9 to 13 and the separators 28 to 31.
\<close>

definition ascii_uppercase :: string where
  "ascii_uppercase = ''ABCDEFGHIJKLMNOPQRSTUVWXYZ''"

definition ascii_lowercase :: string where
  "ascii_lowercase = ''abcdefghijklmnopqrstuvwxyz''"

definition lower_char :: "char \<Rightarrow> char" where
  "lower_char c =
     (case map_of (zip ascii_uppercase ascii_lowercase) c of None \<Rightarrow> c | Some d \<Rightarrow> d)"

definition lower :: "string \<Rightarrow> string" where
  "lower s = map lower_char s"

definition is_word_char :: "char \<Rightarrow> bool" where
  "is_word_char c \<longleftrightarrow> c \<in> set (ascii_lowercase @ ascii_uppercase @ ''0123456789_'')"

definition is_space_char :: "char \<Rightarrow> bool" where
  "is_space_char c \<longleftrightarrow>
     c \<in> set [CHR '' '', CHR 0x09, CHR 0x0A, CHR 0x0B, CHR 0x0C, CHR 0x0D,
                CHR 0x1C, CHR 0x1D, CHR 0x1E, CHR 0x1F]"

text \<open>\<^verbatim>\<open>re.sub(r'[^\w\s]', '', text)\<close> deletes every character the class matches.\<close>

definition strip_punct :: "string \<Rightarrow> string" where
  "strip_punct s = filter (\<lambda>c. is_word_char c \<or> is_space_char c) s"

text \<open>\<^verbatim>\<open>" ".join(nlp_tokens)\<close>\<close>

fun join_space :: "string list \<Rightarrow> string" where
  "join_space [] = []"
| "join_space [t] = t"
| "join_space (t # u # ts) = t @ CHR '' '' # join_space (u # ts)"

text \<open>
  The tokenizer \<^verbatim>\<open>nlp\<close> (the spaCy pipeline \<^verbatim>\<open>en_core_web_sm\<close>) and the list
  \<^verbatim>\<open>stop_words\<close> (the English list of the NLTK corpus) come from outside the script:
  they are parameters. \<open>clean\<close> is the body of the loop for a row that is kept,
  \<open>filtered_text_loop\<close> the loop, started on the empty list of line 37.
\<close>

definition clean :: "(string \<Rightarrow> string list) \<Rightarrow> string \<Rightarrow> string" where
  "clean nlp raw = join_space (nlp (strip_punct (lower raw)))"

fun filtered_text_loop ::
  "(string \<Rightarrow> string list) \<Rightarrow> string list \<Rightarrow> string list \<Rightarrow> string list \<Rightarrow> string list" where
  "filtered_text_loop nlp stop_words filtered_text [] = filtered_text"
| "filtered_text_loop nlp stop_words filtered_text (raw # rest) =
     (let text = strip_punct (lower raw) in
      if text \<notin> set stop_words
      then filtered_text_loop nlp stop_words (filtered_text @ [join_space (nlp text)]) rest
      else filtered_text_loop nlp stop_words filtered_text rest)"

definition normalizer ::
  "(string \<Rightarrow> string list) \<Rightarrow> string list \<Rightarrow> episode list \<Rightarrow> string list" where
  "normalizer nlp stop_words new_df =
     filtered_text_loop nlp stop_words [] (map ep_character_words new_df)"

section \<open>Splitting at whitespace: \<^verbatim>\<open>str.split()\<close> (line 89)\<close>

text \<open>
  \<^verbatim>\<open>txt.split()\<close> returns the maximal runs of non-whitespace characters, in order;
  \<open>split_from cur s\<close> scans \<open>s\<close> with the run read so far in \<open>cur\<close>.
\<close>

fun split_from :: "string \<Rightarrow> string \<Rightarrow> string list" where
  "split_from cur [] = (if cur = [] then [] else [cur])"
| "split_from cur (c # cs) =
     (if is_space_char c
      then (if cur = [] then split_from [] cs else cur # split_from [] cs)
      else split_from (cur @ [c]) cs)"

definition split_ws :: "string \<Rightarrow> string list" where
  "split_ws s = split_from [] s"

section \<open>The tokenizer's whitespace rule (line 46)\<close>

text \<open>
  The tokenizer of line 46 cuts the text where whitespace begins and ends. A single space
  after a chunk of non-whitespace characters is recorded as the trailing space of the
  token before it; what remains of a run of whitespace is a token of its own. A chunk of
  non-whitespace characters goes through the prefix, suffix, infix and exception rules of
  the language, which are the parameter \<open>split_chunk\<close>. The tokenizer \<^verbatim>\<open>nlp\<close> of the
  script is \<open>spacy_tokens split_chunk\<close> for the rules of the English model.
\<close>

definition emit_span :: "(string \<Rightarrow> string list) \<Rightarrow> bool \<Rightarrow> string \<Rightarrow> string list" where
  "emit_span split_chunk in_ws cur =
     (if cur = [] then [] else if in_ws then [cur] else split_chunk cur)"

fun spacy_scan :: "(string \<Rightarrow> string list) \<Rightarrow> bool \<Rightarrow> string \<Rightarrow> string \<Rightarrow> string list" where
  "spacy_scan split_chunk in_ws cur [] = emit_span split_chunk in_ws cur"
| "spacy_scan split_chunk in_ws cur (uc # rest) =
     (if is_space_char uc = in_ws then spacy_scan split_chunk in_ws (cur @ [uc]) rest
      else emit_span split_chunk in_ws cur @
           (if uc = CHR '' '' then spacy_scan split_chunk (\<not> in_ws) [] rest
            else spacy_scan split_chunk (\<not> in_ws) [uc] rest))"

definition spacy_tokens :: "(string \<Rightarrow> string list) \<Rightarrow> string \<Rightarrow> string list" where
  "spacy_tokens split_chunk text =
     (case text of
        [] \<Rightarrow> []
      | uc # rest \<Rightarrow> spacy_scan split_chunk (is_space_char uc) [] text)"

section \<open>Failures\<close>

text \<open>The script catches nothing: the first exception raised ends the run.\<close>

datatype error = NameError string | AttributeError string | KeyError string

section \<open>Polarity scores (lines 59 to 83)\<close>

text \<open>
  \<^verbatim>\<open>sentiment.polarity_scores\<close> is the VADER analyzer of NLTK, a parameter here; it
  returns the four scores of a text. Decimal values are rationals.
\<close>

record polarity =
  neg :: rat
  neu :: rat
  pos :: rat
  compound :: rat

record sentiment_row =
  row_id :: nat
  negative_score :: rat
  neutral_score :: rat
  positive_score :: rat
  compound_score :: rat
  scored_words :: string

text \<open>
  Line 51 builds \<^verbatim>\<open>filter_text_df\<close> from the list \<^verbatim>\<open>filtered_text\<close>. From an empty list
  pandas builds a table with no column, the \<^verbatim>\<open>rename\<close> finds nothing to rename, and the
  attribute access \<^verbatim>\<open>filter_text_df.filtered_text\<close> of line 59 fails. Otherwise line 59
  reads the first text; the loop of lines 60 to 64 only prints.
\<close>

definition first_sample :: "string list \<Rightarrow> error + string" where
  "first_sample filtered_text =
     (case filtered_text of
        [] \<Rightarrow> Inl (AttributeError ''filtered_text'')
      | txt # rest \<Rightarrow> Inr txt)"

definition sentiment_entry :: "(string \<Rightarrow> polarity) \<Rightarrow> nat \<times> string \<Rightarrow> sentiment_row" where
  "sentiment_entry polarity_scores p =
     (case p of (i, txt) \<Rightarrow>
        let score = polarity_scores txt in
        \<lparr>row_id = i,
         negative_score = neg score,
         neutral_score = neu score,
         positive_score = pos score,
         compound_score = compound score,
         scored_words = txt\<rparr>)"

definition sentiment_stage :: "(string \<Rightarrow> polarity) \<Rightarrow> string list \<Rightarrow> sentiment_row list" where
  "sentiment_stage polarity_scores filtered_text =
     map (sentiment_entry polarity_scores) (enumerate 0 filtered_text)"

section \<open>Valence, arousal and description (lines 86 to 97)\<close>

text \<open>
  The loop body calls \<^verbatim>\<open>s.sentiment(terms)\<close> and \<^verbatim>\<open>s.describe(terms)\<close>. A name is bound
  at module level by an import or by an assignment; these are all the names the script
  binds before line 90, and the built-in names it uses.
\<close>

definition module_names :: "string list" where
  "module_names =
     [''pd'', ''np'', ''re'', ''nltk'', ''spacy'', ''SentimentIntensityAnalyzer'',
      ''avatar'', ''new_df'', ''i'', ''ep_id'', ''filtered_text'', ''nlp'', ''text'',
      ''stop_words'', ''tokens'', ''nlp_tokens'', ''filter_text_df'', ''sentiment'', ''txt'',
      ''sentences'', ''sentence'', ''score'', ''sentiment_data'', ''df_rows'', ''other_data'',
      ''row'', ''terms'']"

definition builtin_names :: "string list" where
  "builtin_names = [''range'', ''len'', ''print'']"

definition name_bound :: "string \<Rightarrow> bool" where
  "name_bound n \<longleftrightarrow> n \<in> set module_names \<or> n \<in> set builtin_names"

text \<open>
  What the two methods would compute is a parameter: \<open>affect_sentiment\<close> gives the valence
  and the arousal of a list of terms, \<open>affect_describe\<close> its description.
\<close>

record affect =
  affect_sentiment :: "string list \<Rightarrow> rat \<times> rat"
  affect_describe :: "string list \<Rightarrow> string"

record other_row =
  valence :: rat
  arousal :: rat
  description :: string

fun other_loop :: "affect \<Rightarrow> other_row list \<Rightarrow> string list \<Rightarrow> error + other_row list" where
  "other_loop s other_data [] = Inr other_data"
| "other_loop s other_data (txt # rest) =
     (let terms = split_ws txt in
      if \<not> name_bound ''s'' then Inl (NameError ''s'')
      else
        let a_v_score = affect_sentiment s terms;
            d = affect_describe s terms
        in other_loop s
             (other_data @ [\<lparr>valence = fst a_v_score, arousal = snd a_v_score, description = d\<rparr>])
             rest)"

definition other_stage :: "affect \<Rightarrow> string list \<Rightarrow> error + other_row list" where
  "other_stage s filtered_text = other_loop s [] filtered_text"

section \<open>Merger (lines 100 to 107)\<close>

text \<open>
  Assigning a column of another table aligns it on the index: row \<open>i\<close> receives the value
  the other table holds under label \<open>i\<close>, and the missing value when it has no such row.
  \<^verbatim>\<open>other_data\<close> built from an empty list has no column, and reading
  \<^verbatim>\<open>other_data['arousal']\<close> fails.
\<close>

record final_row =
  final_id :: nat
  final_negative_score :: rat
  final_neutral_score :: rat
  final_positive_score :: rat
  final_compound_score :: rat
  final_character_words :: string
  arousal_score :: "rat option"
  valence_score :: "rat option"
  final_description :: "string option"
  final_imdb_rating :: "rat option"
  season :: "int option"

definition at_label :: "'a list \<Rightarrow> nat \<Rightarrow> 'a option" where
  "at_label xs i = (if i < length xs then Some (xs ! i) else None)"

definition merge_row ::
  "other_row list \<Rightarrow> episode list \<Rightarrow> nat \<times> sentiment_row \<Rightarrow> final_row" where
  "merge_row other_data new_df p =
     (case p of (i, r) \<Rightarrow>
        \<lparr>final_id = row_id r,
         final_negative_score = negative_score r,
         final_neutral_score = neutral_score r,
         final_positive_score = positive_score r,
         final_compound_score = compound_score r,
         final_character_words = scored_words r,
         arousal_score = map_option arousal (at_label other_data i),
         valence_score = map_option valence (at_label other_data i),
         final_description = map_option description (at_label other_data i),
         final_imdb_rating = map_option ep_imdb_rating (at_label new_df i),
         season = map_option ep_book_num (at_label new_df i)\<rparr>)"

definition merger ::
  "sentiment_row list \<Rightarrow> other_row list \<Rightarrow> episode list \<Rightarrow> error + final_row list" where
  "merger sentiment_data other_data new_df =
     (if other_data = [] then Inl (KeyError ''arousal'')
      else Inr (map (merge_row other_data new_df) (enumerate 0 sentiment_data)))"

section \<open>The whole script\<close>

text \<open>
  A run takes the loaded table and the files present, and returns the files it leaves
  behind together with the final table or the exception that ended it.
\<close>

definition run ::
  "(string \<Rightarrow> string list) \<Rightarrow> string list \<Rightarrow> (string \<Rightarrow> polarity) \<Rightarrow> affect \<Rightarrow>
   files \<Rightarrow> avatar_row list \<Rightarrow> files \<times> (error + final_row list)" where
  "run nlp stop_words polarity_scores s fs avatar =
     (let new_df = aggregator avatar;
          fs' = to_csv new_df ''new.df.csv'' fs;
          filtered_text = normalizer nlp stop_words new_df
      in (fs',
          case first_sample filtered_text of
            Inl e \<Rightarrow> Inl e
          | Inr txt \<Rightarrow>
              let sentiment_data = sentiment_stage polarity_scores filtered_text in
              (case other_stage s filtered_text of
                 Inl e \<Rightarrow> Inl e
               | Inr other_data \<Rightarrow> merger sentiment_data other_data new_df)))"

section \<open>Example tables\<close>

text \<open>The two dialogue lines of the example scenario, one per episode.\<close>

definition two_episodes :: "avatar_row list" where
  "two_episodes =
     [\<lparr>book_num = Some 1, chapter_num = Some 1, imdb_rating = Some (17 / 2),
       character_words = ''Hello world.''\<rparr>,
      \<lparr>book_num = Some 1, chapter_num = Some 2, imdb_rating = Some 9,
       character_words = ''Goodbye world.''\<rparr>]"

text \<open>One dialogue line of an episode whose rating field is empty in the CSV.\<close>

definition unrated_episode :: "avatar_row list" where
  "unrated_episode =
     [\<lparr>book_num = Some 1, chapter_num = Some 20, imdb_rating = None,
       character_words = ''Hello world.''\<rparr>]"

text \<open>
  A dialogue line whose season field is empty in the CSV, followed by a complete one: the
  column \<^verbatim>\<open>book_num\<close> of this table is a float column.
\<close>

definition unnumbered_line :: "avatar_row list" where
  "unnumbered_line =
     [\<lparr>book_num = None, chapter_num = Some 1, imdb_rating = Some (17 / 2),
       character_words = ''Hello world.''\<rparr>,
      \<lparr>book_num = Some 1, chapter_num = Some 2, imdb_rating = Some 9,
       character_words = ''Goodbye world.''\<rparr>]"


text \<open>
  The key combination of a row as it stands in the table, its fields present or not, and
  the text of all rows of a group in row order.
\<close>

definition raw_key :: "avatar_row \<Rightarrow> int option \<times> int option \<times> rat option" where
  "raw_key r = (book_num r, chapter_num r, imdb_rating r)"



text \<open>The number a string of decimal digits denotes.\<close>

definition decimal_value :: "string \<Rightarrow> nat" where
  "decimal_value ds = foldl (\<lambda>a c. 10 * a + (of_char c - 48)) 0 ds"

text \<open>
  A row that has all three key fields, and the key of a group written as the fields of
  such a row.
\<close>

definition complete_key :: "avatar_row \<Rightarrow> bool" where
  "complete_key r \<longleftrightarrow> book_num r \<noteq> None \<and> chapter_num r \<noteq> None \<and> imdb_rating r \<noteq> None"

definition lift_key :: "group_key \<Rightarrow> int option \<times> int option \<times> rat option" where
  "lift_key k = (case k of (b, c, x) \<Rightarrow> (Some b, Some c, Some x))"

text \<open>
  The literals the identifier is made of, stated without the rendering functions: a
  string of decimal digits with no superfluous leading zero that denotes a natural
  number, an integer literal with its minus sign, the literal of a float that holds an
  integer, and the literal of a number of an integer or float column.
\<close>

definition decimal_digits :: "string \<Rightarrow> nat \<Rightarrow> bool" where
  "decimal_digits s n \<longleftrightarrow>
     s \<noteq> [] \<and> set s \<subseteq> set ''0123456789'' \<and> (hd s = CHR ''0'' \<longrightarrow> s = ''0'') \<and>
     decimal_value s = n"

definition int_literal :: "string \<Rightarrow> int \<Rightarrow> bool" where
  "int_literal s i \<longleftrightarrow>
     (if i < 0 then s \<noteq> [] \<and> hd s = CHR ''-'' \<and> decimal_digits (tl s) (nat (- i))
      else decimal_digits s (nat i))"

definition float_literal :: "string \<Rightarrow> int \<Rightarrow> bool" where
  "float_literal s i \<longleftrightarrow>
     2 \<le> length s \<and> drop (length s - 2) s = ''.0'' \<and> int_literal (take (length s - 2) s) i"

definition column_literal :: "bool \<Rightarrow> string \<Rightarrow> int \<Rightarrow> bool" where
  "column_literal float_column s i \<longleftrightarrow>
     (if float_column then float_literal s i else int_literal s i)"

text \<open>An episode whose whole dialogue is one stop word, followed by an ordinary one.\<close>

definition stopword_episode :: "avatar_row list" where
  "stopword_episode =
     [\<lparr>book_num = Some 1, chapter_num = Some 1, imdb_rating = Some (17 / 2),
       character_words = ''The.''\<rparr>,
      \<lparr>book_num = Some 1, chapter_num = Some 2, imdb_rating = Some 9,
       character_words = ''Hello world.''\<rparr>]"

text \<open>
  Instances of the parameters for the examples: some entries of the English stop-word
  list, an analyzer that finds every text neutral, and an affect lexicon that returns
  zeros.
\<close>

definition stop_words_sample :: "string list" where
  "stop_words_sample =
     [''i'', ''me'', ''my'', ''we'', ''you'', ''he'', ''she'', ''it'', ''the'', ''a'',
      ''an'', ''and'', ''but'', ''or'', ''not'']"

definition neutral_polarity :: "string \<Rightarrow> polarity" where
  "neutral_polarity txt = \<lparr>neg = 0, neu = 1, pos = 0, compound = 0\<rparr>"

definition zero_affect :: affect where
  "zero_affect = \<lparr>affect_sentiment = (\<lambda>terms. (0, 0)), affect_describe = (\<lambda>terms. [])\<rparr>"

text \<open>Word rules that leave every chunk whole, as the English rules leave a plain word.\<close>

definition whole_chunk :: "string \<Rightarrow> string list" where
  "whole_chunk chunk = [chunk]"

text \<open>
  A character that the first two steps of the loop body leave alone, a text without
  whitespace, and a term as \<^verbatim>\<open>str.split()\<close> returns it.
\<close>

definition clean_char :: "char \<Rightarrow> bool" where
  "clean_char c \<longleftrightarrow> lower_char c = c \<and> (is_word_char c \<or> is_space_char c)"

definition no_space :: "string \<Rightarrow> bool" where
  "no_space t \<longleftrightarrow> (\<forall>c \<in> set t. \<not> is_space_char c)"

definition is_term :: "string \<Rightarrow> bool" where
  "is_term t \<longleftrightarrow> t \<noteq> [] \<and> no_space t"

text \<open>Whether the loop of lines 39 to 48 keeps a row.\<close>

definition kept :: "string list \<Rightarrow> string \<Rightarrow> bool" where
  "kept stop_words raw \<longleftrightarrow> strip_punct (lower raw) \<notin> set stop_words"

lemmas aggregator_eval =
  aggregator_def groupby_sum_def group_key_of_def with_season_episode_def has_missing_def
  astype_str_def str_float_def str_int_def str_nat.simps digit_char_def

lemmas normalizer_eval =
  normalizer_def clean_def split_ws_def lower_def lower_char_def strip_punct_def
  is_word_char_def is_space_char_def ascii_uppercase_def ascii_lowercase_def

lemmas spacy_eval = spacy_tokens_def emit_span_def whole_chunk_def

section \<open>Properties of the integer rendering\<close>

lemma of_char_digit_char:
  assumes "d < 10"
  shows "of_char (digit_char d) = (48 + d :: nat)"
proof -
  from assms have "d \<in> {0, 1, 2, 3, 4, 5, 6, 7, 8, 9}" by auto
  then show ?thesis by (auto simp: digit_char_def)
qed

lemma decimal_value_str_nat: "decimal_value (str_nat n) = n"
proof (induction n rule: str_nat.induct)
  case (1 n)
  show ?case
  proof (cases "n < 10")
    case True
    then show ?thesis
      by (simp add: str_nat.simps [of n] decimal_value_def of_char_digit_char)
  next
    case False
    then have "decimal_value (str_nat (n div 10)) = n div 10"
      by (rule 1)
    with False show ?thesis
      by (simp add: str_nat.simps [of n] decimal_value_def of_char_digit_char)
  qed
qed

lemma str_nat_digits: "set (str_nat n) \<subseteq> set ''0123456789''"
proof (induction n rule: str_nat.induct)
  case (1 n)
  have d: "digit_char k \<in> set ''0123456789''" if "k < 10" for k
    using that unfolding digit_char_def by (intro nth_mem) simp
  show ?case
  proof (cases "n < 10")
    case True
    then show ?thesis using d [of n] by (simp add: str_nat.simps [of n])
  next
    case False
    with 1 have "set (str_nat (n div 10)) \<subseteq> set ''0123456789''" by simp
    with False show ?thesis using d [of "n mod 10"] by (simp add: str_nat.simps [of n])
  qed
qed

lemma str_nat_not_Nil: "str_nat n \<noteq> []"
  by (simp add: str_nat.simps [of n])

lemma digit_char_nonzero:
  assumes "0 < d" and "d < 10"
  shows "digit_char d \<noteq> CHR ''0''"
proof -
  from assms have "d \<in> {1, 2, 3, 4, 5, 6, 7, 8, 9}" by auto
  then show ?thesis by (auto simp: digit_char_def)
qed

lemma hd_str_nat: "0 < n \<Longrightarrow> hd (str_nat n) \<noteq> CHR ''0''"
proof (induction n rule: str_nat.induct)
  case (1 n)
  show ?case
  proof (cases "n < 10")
    case True
    with 1(2) show ?thesis by (simp add: str_nat.simps [of n] digit_char_nonzero)
  next
    case False
    then have "0 < n div 10" by simp
    with False 1(1) have "hd (str_nat (n div 10)) \<noteq> CHR ''0''" by simp
    with False show ?thesis by (simp add: str_nat.simps [of n] str_nat_not_Nil)
  qed
qed

lemma str_nat_zero: "str_nat 0 = ''0''"
  by (simp add: str_nat.simps [of 0] digit_char_def)

lemma decimal_digits_str_nat: "decimal_digits (str_nat n) n"
proof -
  have "hd (str_nat n) = CHR ''0'' \<longrightarrow> str_nat n = ''0''"
    using hd_str_nat [of n] str_nat_zero by (cases "n = 0") auto
  then show ?thesis
    using str_nat_digits [of n]
    by (simp add: decimal_digits_def str_nat_not_Nil decimal_value_str_nat)
qed

lemma int_literal_str_int: "int_literal (str_int i) i"
  by (simp add: int_literal_def str_int_def decimal_digits_str_nat)

lemma float_literal_str_float: "float_literal (str_float i) i"
  by (simp add: float_literal_def str_float_def int_literal_str_int)


text \<open>The literal of a number is unique, so it is the string the rendering returns.\<close>

lemma decimal_value_snoc:
  "decimal_value (s @ [c]) = 10 * decimal_value s + (of_char c - 48)"
  by (simp add: decimal_value_def)

lemma digit_char_of_char:
  assumes "c \<in> set ''0123456789''"
  shows "of_char c - 48 < (10::nat) \<and> digit_char (of_char c - 48) = c"
  using assms by (auto simp: digit_char_def)

lemma of_char_zero:
  assumes "c \<in> set ''0123456789''" and "c \<noteq> CHR ''0''"
  shows "0 < (of_char c - 48 :: nat)"
  using assms by auto

lemma decimal_value_positive:
  "s \<noteq> [] \<Longrightarrow> set s \<subseteq> set ''0123456789'' \<Longrightarrow> hd s \<noteq> CHR ''0'' \<Longrightarrow> 0 < decimal_value s"
proof (induction s rule: rev_induct)
  case Nil
  then show ?case by simp
next
  case (snoc c s)
  show ?case
  proof (cases "s = []")
    case True
    with snoc.prems of_char_zero [of c] show ?thesis
      by (simp add: decimal_value_def)
  next
    case False
    with snoc have "0 < decimal_value s" by simp
    then show ?thesis by (simp add: decimal_value_snoc)
  qed
qed

lemma decimal_digits_unique: "decimal_digits s n \<Longrightarrow> s = str_nat n"
proof (induction s arbitrary: n rule: rev_induct)
  case Nil
  then show ?case by (simp add: decimal_digits_def)
next
  case (snoc c t)
  from snoc.prems have c: "c \<in> set ''0123456789''"
    and digits: "set t \<subseteq> set ''0123456789''"
    and n: "n = 10 * decimal_value t + (of_char c - 48)"
    and lead: "hd (t @ [c]) = CHR ''0'' \<longrightarrow> t @ [c] = ''0''"
    by (auto simp: decimal_digits_def decimal_value_snoc)
  from c have d: "of_char c - 48 < (10::nat)" "digit_char (of_char c - 48) = c"
    using digit_char_of_char by blast+
  show ?case
  proof (cases "t = []")
    case True
    with n have nd: "of_char c - 48 = n" by (simp add: decimal_value_def)
    with d have "n < 10" "digit_char n = c" by simp_all
    then have "str_nat n = [c]" by (simp add: str_nat.simps [of n])
    with True show ?thesis by simp
  next
    case False
    with lead have hd: "hd t \<noteq> CHR ''0''" by auto
    with False digits have "decimal_digits t (decimal_value t)"
      by (simp add: decimal_digits_def)
    then have t: "t = str_nat (decimal_value t)" by (rule snoc.IH)
    from False digits hd have "0 < decimal_value t" by (rule decimal_value_positive)
    with n d have "\<not> n < 10" "n div 10 = decimal_value t" "n mod 10 = of_char c - 48"
      by auto
    then have "str_nat n = str_nat (decimal_value t) @ [digit_char (of_char c - 48)]"
      by (simp add: str_nat.simps [of n])
    with t d show ?thesis by simp
  qed
qed

lemma int_literal_unique: "int_literal s i \<Longrightarrow> s = str_int i"
proof (cases "i < 0")
  case True
  assume "int_literal s i"
  with True have "s \<noteq> []" "hd s = CHR ''-''" "tl s = str_nat (nat (- i))"
    by (auto simp: int_literal_def dest: decimal_digits_unique)
  with True show ?thesis
    by (cases s) (simp_all add: str_int_def)
next
  case False
  assume "int_literal s i"
  with False show ?thesis
    by (simp add: int_literal_def str_int_def decimal_digits_unique)
qed

lemma float_literal_unique:
  assumes "float_literal s i"
  shows "s = str_float i"
proof -
  from assms have "take (length s - 2) s = str_int i" "drop (length s - 2) s = ''.0''"
    by (auto simp: float_literal_def dest: int_literal_unique)
  then have "take (length s - 2) s @ drop (length s - 2) s = str_int i @ ''.0''"
    by simp
  then show ?thesis by (simp add: str_float_def)
qed

lemma column_literal_iff: "column_literal f s i \<longleftrightarrow> s = astype_str f i"
  using int_literal_unique [of s i] float_literal_unique [of s i]
    int_literal_str_int [of i] float_literal_str_float [of i]
  by (auto simp: column_literal_def astype_str_def)

section \<open>Properties of the aggregator\<close>

lemma add_to_group_fst:
  "map fst (add_to_group k w gs) =
     (if k \<in> set (map fst gs) then map fst gs else map fst gs @ [k])"
proof (induction gs)
  case Nil
  show ?case by simp
next
  case (Cons g gs)
  obtain k' t where g: "g = (k', t)" by (cases g)
  show ?case using Cons.IH by (auto simp: g)
qed

lemma add_to_group_keys: "fst ` set (add_to_group k w gs) = insert k (fst ` set gs)"
proof -
  have "set (map fst (add_to_group k w gs)) = insert k (set (map fst gs))"
    by (simp only: add_to_group_fst) auto
  then show ?thesis by simp
qed

lemma add_to_group_distinct:
  "distinct (map fst gs) \<Longrightarrow> distinct (map fst (add_to_group k w gs))"
  by (simp only: add_to_group_fst) simp


lemma group_sum_keys:
  "fst ` set (group_sum acc rs) = fst ` set acc \<union> set (List.map_filter group_key_of rs)"
proof (induction rs arbitrary: acc)
  case Nil
  then show ?case by simp
next
  case (Cons r rs)
  show ?case
    by (cases "group_key_of r") (simp_all add: Cons.IH add_to_group_keys)
qed

lemma group_sum_distinct:
  "distinct (map fst acc) \<Longrightarrow> distinct (map fst (group_sum acc rs))"
proof (induction rs arbitrary: acc)
  case Nil
  then show ?case by simp
next
  case (Cons r rs)
  then show ?case
    by (cases "group_key_of r") (simp_all add: add_to_group_distinct)
qed


lemma groupby_sum_length:
  "length (groupby_sum rows) = card (set (List.map_filter group_key_of rows))"
proof -
  have d: "distinct (map fst (group_sum [] rows))"
    by (rule group_sum_distinct) simp
  have "length (groupby_sum rows) = length (map fst (group_sum [] rows))"
    by (simp add: groupby_sum_def)
  also have "\<dots> = card (set (map fst (group_sum [] rows)))"
    using d by (simp only: distinct_card)
  also have "set (map fst (group_sum [] rows)) = set (List.map_filter group_key_of rows)"
    using group_sum_keys [of "[]" rows] by simp
  finally show ?thesis .
qed


lemma groupby_sum_sorted: "sorted (map fst (groupby_sum rows))"
  by (simp add: groupby_sum_def)

lemma group_key_of_Some_iff:
  "group_key_of r = Some k \<longleftrightarrow> complete_key r \<and> raw_key r = lift_key k"
  by (cases k)
     (auto simp: group_key_of_def complete_key_def raw_key_def lift_key_def split: option.splits)

lemma inj_lift_key: "inj lift_key"
  by (auto simp: inj_on_def lift_key_def split: prod.splits)

lemma in_set_map_filter:
  "k \<in> set (List.map_filter f xs) \<longleftrightarrow> (\<exists>x \<in> set xs. f x = Some k)"
  by (induction xs) (auto split: option.splits)

lemma complete_raw_keys:
  "raw_key ` set (filter complete_key rows) = lift_key ` set (List.map_filter group_key_of rows)"
proof (intro set_eqI iffI)
  fix q
  assume "q \<in> raw_key ` set (filter complete_key rows)"
  then obtain r where r: "r \<in> set rows" "complete_key r" "q = raw_key r" by auto
  then obtain b c x where "book_num r = Some b" "chapter_num r = Some c" "imdb_rating r = Some x"
    by (auto simp: complete_key_def)
  with r have "group_key_of r = Some (b, c, x)" "q = lift_key (b, c, x)"
    by (simp_all add: group_key_of_def raw_key_def lift_key_def)
  with r(1) have "(b, c, x) \<in> set (List.map_filter group_key_of rows)"
    "q = lift_key (b, c, x)"
    by (auto simp: in_set_map_filter)
  then show "q \<in> lift_key ` set (List.map_filter group_key_of rows)"
    by blast
next
  fix q
  assume "q \<in> lift_key ` set (List.map_filter group_key_of rows)"
  then obtain r k where "r \<in> set rows" "group_key_of r = Some k" "q = lift_key k"
    by (auto simp: in_set_map_filter)
  then have "r \<in> set (filter complete_key rows)" "q = raw_key r"
    by (simp_all add: group_key_of_Some_iff)
  then show "q \<in> raw_key ` set (filter complete_key rows)"
    by blast
qed

text \<open>
  C2, as stated: the number of rows of \<^verbatim>\<open>new_df\<close> equals the number of distinct
  (book_num, chapter_num, imdb_rating) combinations of the input. It fails on a table
  with a row whose rating is missing: the row carries one key combination, and
  \<^verbatim>\<open>groupby\<close> leaves it out, so \<^verbatim>\<open>new_df\<close> is empty.
\<close>

theorem aggregator_row_count_counterexample:
  "length (aggregator unrated_episode) = 0 \<and> card (raw_key ` set unrated_episode) = 1"
  by (simp add: unrated_episode_def raw_key_def aggregator_eval)

text \<open>
  C2, amended: the number of rows of \<^verbatim>\<open>new_df\<close> equals the number of distinct
  (book_num, chapter_num, imdb_rating) combinations among the input rows in which all
  three key fields are present.
\<close>

theorem aggregator_row_count:
  "length (aggregator rows) = card (raw_key ` set (filter complete_key rows))"
proof -
  have "card (raw_key ` set (filter complete_key rows)) =
          card (lift_key ` set (List.map_filter group_key_of rows))"
    by (simp only: complete_raw_keys)
  also have "\<dots> = card (set (List.map_filter group_key_of rows))"
    by (rule card_image) (rule inj_on_subset [OF inj_lift_key], simp)
  finally show ?thesis
    by (simp add: aggregator_def groupby_sum_length)
qed

theorem aggregator_row_count_witness:
  "length (aggregator unnumbered_line) = 1 \<and>
   card (raw_key ` set (filter complete_key unnumbered_line)) = 1"
  using aggregator_row_count [of unnumbered_line]
  by (simp add: unnumbered_line_def complete_key_def raw_key_def aggregator_eval)






section \<open>Properties of the text normalizer\<close>

lemma lowercase_not_uppercase: "set ascii_lowercase \<inter> set ascii_uppercase = {}"
  unfolding ascii_uppercase_def ascii_lowercase_def by simp

lemma lower_char_of_lowercase:
  assumes "d \<in> set ascii_lowercase"
  shows "map_of (zip ascii_uppercase ascii_lowercase) d = None"
proof -
  from assms have "d \<notin> set ascii_uppercase"
    using lowercase_not_uppercase by blast
  then have "d \<notin> fst ` set (zip ascii_uppercase ascii_lowercase)"
    by (auto dest: set_zip_leftD)
  then show ?thesis
    by (simp add: map_of_eq_None_iff)
qed

lemma lower_char_idem: "lower_char (lower_char c) = lower_char c"
proof (cases "map_of (zip ascii_uppercase ascii_lowercase) c")
  case None
  then show ?thesis by (simp add: lower_char_def)
next
  case (Some d)
  then have "(c, d) \<in> set (zip ascii_uppercase ascii_lowercase)"
    by (rule map_of_SomeD)
  then have "d \<in> set ascii_lowercase"
    by (rule set_zip_rightD)
  then have "map_of (zip ascii_uppercase ascii_lowercase) d = None"
    by (rule lower_char_of_lowercase)
  with Some show ?thesis by (simp add: lower_char_def)
qed

lemma lower_idem: "lower (lower s) = lower s"
  by (simp add: lower_def lower_char_idem)

lemma strip_punct_idem: "strip_punct (strip_punct s) = strip_punct s"
  by (simp add: strip_punct_def)

lemma is_space_char_space: "is_space_char (CHR '' '')"
  by (simp add: is_space_char_def)

lemma space_not_uppercase: "CHR '' '' \<notin> set ascii_uppercase"
  by (simp add: ascii_uppercase_def)

lemma lower_char_space: "lower_char (CHR '' '') = CHR '' ''"
proof -
  have "CHR '' '' \<notin> fst ` set (zip ascii_uppercase ascii_lowercase)"
    using space_not_uppercase by (auto dest: set_zip_leftD)
  then have "map_of (zip ascii_uppercase ascii_lowercase) (CHR '' '') = None"
    by (simp add: map_of_eq_None_iff)
  then show ?thesis by (simp add: lower_char_def)
qed

lemma clean_char_strip_lower: "c \<in> set (strip_punct (lower raw)) \<Longrightarrow> clean_char c"
  by (auto simp: strip_punct_def lower_def clean_char_def lower_char_idem)

lemma clean_text_fixed:
  assumes "\<forall>c \<in> set s. clean_char c"
  shows "strip_punct (lower s) = s"
proof -
  have "lower s = s"
    unfolding lower_def using assms by (intro map_idI) (simp add: clean_char_def)
  moreover have "strip_punct s = s"
    unfolding strip_punct_def using assms by (simp add: clean_char_def)
  ultimately show ?thesis by simp
qed

lemma set_join_space:
  "set (join_space ts) \<subseteq> insert (CHR '' '') (set (concat ts))"
  by (induction ts rule: join_space.induct) auto

lemma clean_output_fixed:
  assumes "set (concat (nlp (strip_punct (lower raw)))) \<subseteq> set (strip_punct (lower raw))"
  shows "strip_punct (lower (clean nlp raw)) = clean nlp raw"
proof -
  let ?t = "strip_punct (lower raw)"
  have "\<forall>c \<in> set (join_space (nlp ?t)). clean_char c"
  proof
    fix c
    assume "c \<in> set (join_space (nlp ?t))"
    then have "c = CHR '' '' \<or> c \<in> set (concat (nlp ?t))"
      using set_join_space [of "nlp ?t"] by auto
    then show "clean_char c"
    proof
      assume "c = CHR '' ''"
      then show ?thesis
        by (simp add: clean_char_def lower_char_space is_space_char_space)
    next
      assume "c \<in> set (concat (nlp ?t))"
      with assms have "c \<in> set ?t" by blast
      then show ?thesis by (rule clean_char_strip_lower)
    qed
  qed
  then show ?thesis
    unfolding clean_def by (rule clean_text_fixed)
qed

text \<open>The loop as a filter followed by a map.\<close>

lemma filtered_text_loop_eq:
  "filtered_text_loop nlp stop_words acc raws =
     acc @ map (clean nlp) (filter (kept stop_words) raws)"
  by (induction raws arbitrary: acc) (simp_all add: Let_def kept_def clean_def)

lemma normalizer_eq:
  "normalizer nlp stop_words new_df =
     map (clean nlp) (filter (kept stop_words) (map ep_character_words new_df))"
  by (simp add: normalizer_def filtered_text_loop_eq)

lemma normalizer_length_le: "length (normalizer nlp stop_words new_df) \<le> length new_df"
proof -
  have "length (filter (kept stop_words) (map ep_character_words new_df))
          \<le> length (map ep_character_words new_df)"
    by (rule length_filter_le)
  then show ?thesis by (simp add: normalizer_eq)
qed

lemma length_filter_all:
  "length (filter P xs) = length xs \<longleftrightarrow> list_all P xs"
proof -
  have "length (filter P xs) = length xs \<longleftrightarrow> length (filter (\<lambda>x. \<not> P x) xs) = 0"
    using sum_length_filter_compl [of P xs] by linarith
  also have "\<dots> \<longleftrightarrow> list_all P xs"
    by (simp add: filter_empty_conv list_all_iff)
  finally show ?thesis .
qed

lemma normalizer_length_eq:
  "length (normalizer nlp stop_words new_df) = length new_df \<longleftrightarrow>
     list_all (kept stop_words) (map ep_character_words new_df)"
  using length_filter_all [of "kept stop_words" "map ep_character_words new_df"]
  by (simp add: normalizer_eq)

section \<open>Properties of \<^verbatim>\<open>str.split()\<close>\<close>

lemma no_space_simps:
  "no_space []"
  "no_space (c # t) \<longleftrightarrow> \<not> is_space_char c \<and> no_space t"
  "no_space (t @ u) \<longleftrightarrow> no_space t \<and> no_space u"
  by (auto simp: no_space_def)

lemma split_from_terms:
  "no_space cur \<Longrightarrow> t \<in> set (split_from cur s) \<Longrightarrow> is_term t"
proof (induction cur s rule: split_from.induct)
  case (1 cur)
  then show ?case by (simp add: is_term_def split: if_splits)
next
  case (2 cur c cs)
  show ?case
  proof (cases "is_space_char c")
    case True
    show ?thesis
    proof (cases "cur = []")
      case True
      with \<open>is_space_char c\<close> 2 show ?thesis by (simp add: no_space_simps)
    next
      case False
      with \<open>is_space_char c\<close> 2 have "t = cur \<or> t \<in> set (split_from [] cs)" by simp
      then show ?thesis
      proof
        assume "t = cur"
        with False 2(4) show ?thesis by (simp add: is_term_def)
      next
        assume "t \<in> set (split_from [] cs)"
        with \<open>is_space_char c\<close> False 2(2) show ?thesis by (simp add: no_space_simps)
      qed
    qed
  next
    case False
    with 2 show ?thesis by (simp add: no_space_simps)
  qed
qed

lemma split_from_chars:
  "set (concat (split_from cur s)) \<subseteq> set cur \<union> set s"
  by (induction cur s rule: split_from.induct) auto

lemma split_ws_chars: "set (concat (split_ws s)) \<subseteq> set s"
  using split_from_chars [of "[]" s] by (simp add: split_ws_def)

lemma split_ws_terms: "t \<in> set (split_ws s) \<Longrightarrow> is_term t"
  using split_from_terms [of "[]" t s] by (simp add: split_ws_def no_space_simps)

lemma split_from_run:
  "no_space t \<Longrightarrow> split_from cur (t @ s) = split_from (cur @ t) s"
  by (induction t arbitrary: cur) (simp_all add: no_space_simps)

lemma split_from_term_end: "is_term t \<Longrightarrow> split_from [] t = [t]"
  using split_from_run [of t "[]" "[]"] by (simp add: is_term_def)

lemma split_from_term_space:
  "is_term t \<Longrightarrow> split_from [] (t @ CHR '' '' # s) = t # split_from [] s"
  using split_from_run [of t "[]" "CHR '' '' # s"]
  by (simp add: is_term_def is_space_char_space)

lemma split_from_join:
  "list_all is_term ts \<Longrightarrow> split_from [] (join_space ts) = ts"
proof (induction ts rule: join_space.induct)
  case 1
  show ?case by simp
next
  case (2 t)
  then show ?case by (simp add: split_from_term_end)
next
  case (3 t u ts)
  then show ?case by (simp add: split_from_term_space)
qed

lemma split_ws_join: "list_all is_term ts \<Longrightarrow> split_ws (join_space ts) = ts"
  by (simp add: split_ws_def split_from_join)

lemma split_ws_stable: "split_ws (join_space (split_ws s)) = split_ws s"
  by (rule split_ws_join) (simp add: list_all_iff split_ws_terms)

text \<open>
  C1: the normalizer returns one cleaned text for every row of \<^verbatim>\<open>new_df\<close>, in row order.
  The loop drops a row whose cleaned text is a stop word: on \<open>stopword_episode\<close> the table
  \<^verbatim>\<open>new_df\<close> has two rows and \<^verbatim>\<open>filtered_text\<close> one, which is the text of row 1.
\<close>

theorem normalizer_drops_row:
  "length (aggregator stopword_episode) = 2 \<and>
   normalizer split_ws stop_words_sample (aggregator stopword_episode) = [''hello world''] \<and>
   map (clean split_ws) (map ep_character_words (aggregator stopword_episode)) =
     [''the'', ''hello world'']"
  by (simp add: stopword_episode_def stop_words_sample_def aggregator_eval normalizer_eval)

text \<open>
  C5: on the two rows of the example scenario the aggregator gives the identifiers
  \<open>1-1\<close> and \<open>1-2\<close>, and the normalizer gives \<open>hello world\<close> and \<open>goodbye world\<close>, in
  that order, for a tokenizer that splits the two cleaned texts at the space and a stop
  list that holds neither of them.
\<close>

theorem example_scenario:
  assumes "nlp ''hello world'' = [''hello'', ''world'']"
      and "nlp ''goodbye world'' = [''goodbye'', ''world'']"
      and "''hello world'' \<notin> set stop_words"
      and "''goodbye world'' \<notin> set stop_words"
  shows "map season_episode (aggregator two_episodes) = [''1-1'', ''1-2''] \<and>
         normalizer nlp stop_words (aggregator two_episodes) =
           [''hello world'', ''goodbye world'']"
proof -
  have agg: "map ep_character_words (aggregator two_episodes) =
               [''Hello world.'', ''Goodbye world.'']"
    by (simp add: two_episodes_def aggregator_eval)
  have ids: "map season_episode (aggregator two_episodes) = [''1-1'', ''1-2'']"
    by (simp add: two_episodes_def aggregator_eval)
  have h: "strip_punct (lower ''Hello world.'') = ''hello world''"
    by (simp add: normalizer_eval)
  have g: "strip_punct (lower ''Goodbye world.'') = ''goodbye world''"
    by (simp add: normalizer_eval)
  have "normalizer nlp stop_words (aggregator two_episodes) =
          [''hello world'', ''goodbye world'']"
    using assms by (simp add: normalizer_def agg h g Let_def)
  with ids show ?thesis by simp
qed

theorem example_scenario_witness:
  "map season_episode (aggregator two_episodes) = [''1-1'', ''1-2''] \<and>
   normalizer split_ws stop_words_sample (aggregator two_episodes) =
     [''hello world'', ''goodbye world'']"
proof -
  have 1: "split_ws ''hello world'' = [''hello'', ''world'']"
    by (simp add: split_ws_def is_space_char_def)
  have 2: "split_ws ''goodbye world'' = [''goodbye'', ''world'']"
    by (simp add: split_ws_def is_space_char_def)
  have 3: "''hello world'' \<notin> set stop_words_sample"
    by (simp add: stop_words_sample_def)
  have 4: "''goodbye world'' \<notin> set stop_words_sample"
    by (simp add: stop_words_sample_def)
  show ?thesis
    by (rule example_scenario [OF 1 2 3 4])
qed

lemma clean_fixed_if_stable:
  assumes "set (concat (nlp (strip_punct (lower raw)))) \<subseteq> set (strip_punct (lower raw))"
      and "nlp (join_space (nlp (strip_punct (lower raw)))) = nlp (strip_punct (lower raw))"
  shows "clean nlp (clean nlp raw) = clean nlp raw"
proof -
  have "strip_punct (lower (clean nlp raw)) = clean nlp raw"
    using assms(1) by (rule clean_output_fixed)
  then have "clean nlp (clean nlp raw) = join_space (nlp (clean nlp raw))"
    by (simp add: clean_def)
  also have "\<dots> = clean nlp raw"
    using assms(2) by (simp add: clean_def)
  finally show ?thesis .
qed

lemma clean_split_ws_idem: "clean split_ws (clean split_ws raw) = clean split_ws raw"
  by (rule clean_fixed_if_stable [OF split_ws_chars split_ws_stable])

section \<open>Properties of the tokenizer's whitespace rule\<close>











text \<open>
  The stop-word test is not part of the cleaning step; the loop as a whole does not
  return its own output either.
\<close>

lemma loop_drops_own_output:
  "filtered_text_loop (spacy_tokens whole_chunk) stop_words_sample [] [''The. ''] = [''the''] \<and>
   filtered_text_loop (spacy_tokens whole_chunk) stop_words_sample [] [''the''] = []"
  by (simp add: stop_words_sample_def normalizer_eval spacy_eval)

section \<open>Properties of the scoring stages and of the merger\<close>

lemma sentiment_stage_length:
  "length (sentiment_stage polarity_scores filtered_text) = length filtered_text"
  by (simp add: sentiment_stage_def)

lemma sentiment_stage_nth:
  assumes "i < length filtered_text"
  shows "sentiment_stage polarity_scores filtered_text ! i =
           \<lparr>row_id = i,
            negative_score = neg (polarity_scores (filtered_text ! i)),
            neutral_score = neu (polarity_scores (filtered_text ! i)),
            positive_score = pos (polarity_scores (filtered_text ! i)),
            compound_score = compound (polarity_scores (filtered_text ! i)),
            scored_words = filtered_text ! i\<rparr>"
  using assms by (simp add: sentiment_stage_def sentiment_entry_def nth_enumerate_eq Let_def)

lemma s_unbound: "\<not> name_bound ''s''"
  by (simp add: name_bound_def module_names_def builtin_names_def)

lemma other_loop_fails:
  "filtered_text \<noteq> [] \<Longrightarrow> other_loop s other_data filtered_text = Inl (NameError ''s'')"
  by (cases filtered_text) (simp_all add: s_unbound Let_def)

lemma first_sample_fails: "first_sample [] = Inl (AttributeError ''filtered_text'')"
  by (simp add: first_sample_def)

lemma run_fails:
  "snd (run nlp stop_words polarity_scores s fs avatar) =
     (if normalizer nlp stop_words (aggregator avatar) = []
      then Inl (AttributeError ''filtered_text'')
      else Inl (NameError ''s''))"
  by (cases "normalizer nlp stop_words (aggregator avatar)")
     (simp_all add: run_def Let_def first_sample_def other_stage_def s_unbound)

text \<open>
  C4: the merger assembles the final table by position. Row \<open>i\<close> of the final table holds
  the polarity scores of row \<open>i\<close> of \<^verbatim>\<open>sentiment_data\<close>, the valence, arousal and
  description of row \<open>i\<close> of \<^verbatim>\<open>other_data\<close>, and the rating and season of row \<open>i\<close> of
  \<^verbatim>\<open>new_df\<close>; no key of the rows is compared.
\<close>

theorem merger_positional:
  assumes "i < length sentiment_data"
      and "i < length other_data"
      and "i < length new_df"
  shows "\<exists>final. merger sentiment_data other_data new_df = Inr final \<and>
           length final = length sentiment_data \<and>
           final ! i =
             \<lparr>final_id = row_id (sentiment_data ! i),
              final_negative_score = negative_score (sentiment_data ! i),
              final_neutral_score = neutral_score (sentiment_data ! i),
              final_positive_score = positive_score (sentiment_data ! i),
              final_compound_score = compound_score (sentiment_data ! i),
              final_character_words = scored_words (sentiment_data ! i),
              arousal_score = Some (arousal (other_data ! i)),
              valence_score = Some (valence (other_data ! i)),
              final_description = Some (description (other_data ! i)),
              final_imdb_rating = Some (ep_imdb_rating (new_df ! i)),
              season = Some (ep_book_num (new_df ! i))\<rparr>"
proof -
  from assms(2) have "other_data \<noteq> []" by auto
  then have "merger sentiment_data other_data new_df =
               Inr (map (merge_row other_data new_df) (enumerate 0 sentiment_data))"
    by (simp add: merger_def)
  moreover have "map (merge_row other_data new_df) (enumerate 0 sentiment_data) ! i =
      merge_row other_data new_df (i, sentiment_data ! i)"
    using assms(1) by (simp add: nth_enumerate_eq)
  ultimately show ?thesis
    using assms by (simp add: merge_row_def at_label_def)
qed

theorem merger_positional_witness:
  "merger (sentiment_stage neutral_polarity [''hello world''])
          [\<lparr>valence = 5, arousal = 4, description = ''calm''\<rparr>]
          (aggregator stopword_episode) =
     Inr [\<lparr>final_id = 0,
           final_negative_score = 0,
           final_neutral_score = 1,
           final_positive_score = 0,
           final_compound_score = 0,
           final_character_words = ''hello world'',
           arousal_score = Some 4,
           valence_score = Some 5,
           final_description = Some ''calm'',
           final_imdb_rating = Some (17 / 2),
           season = Some 1\<rparr>]"
proof -
  let ?sd = "sentiment_stage neutral_polarity [''hello world'']"
  let ?od = "[\<lparr>valence = 5, arousal = 4, description = ''calm''\<rparr>]"
  let ?nd = "aggregator stopword_episode"
  have sd: "?sd = [\<lparr>row_id = 0, negative_score = 0, neutral_score = 1, positive_score = 0,
                    compound_score = 0, scored_words = ''hello world''\<rparr>]"
    by (simp add: sentiment_stage_def sentiment_entry_def neutral_polarity_def)
  have nd: "?nd = [\<lparr>ep_book_num = 1, ep_chapter_num = 1, ep_imdb_rating = 17 / 2,
                    ep_character_words = ''The.'', season_episode = ''1-1''\<rparr>,
                   \<lparr>ep_book_num = 1, ep_chapter_num = 2, ep_imdb_rating = 9,
                    ep_character_words = ''Hello world.'', season_episode = ''1-2''\<rparr>]"
    by (simp add: stopword_episode_def aggregator_eval)
  have 1: "0 < length ?sd" by (simp add: sd)
  have 2: "0 < length ?od" by simp
  have 3: "0 < length ?nd" by (simp add: nd)
  from merger_positional [OF 1 2 3]
  obtain final where f: "merger ?sd ?od ?nd = Inr final" "length final = length ?sd"
    and row: "final ! 0 =
             \<lparr>final_id = row_id (?sd ! 0),
              final_negative_score = negative_score (?sd ! 0),
              final_neutral_score = neutral_score (?sd ! 0),
              final_positive_score = positive_score (?sd ! 0),
              final_compound_score = compound_score (?sd ! 0),
              final_character_words = scored_words (?sd ! 0),
              arousal_score = Some (arousal (?od ! 0)),
              valence_score = Some (valence (?od ! 0)),
              final_description = Some (description (?od ! 0)),
              final_imdb_rating = Some (ep_imdb_rating (?nd ! 0)),
              season = Some (ep_book_num (?nd ! 0))\<rparr>"
    by blast
  from f(2) have "length final = 1" by (simp add: sd)
  then have "final = [final ! 0]"
    by (cases final) simp_all
  with f(1) row show ?thesis
    by (simp add: sd nd)
qed

text \<open>
  C8, as stated: the file \<^verbatim>\<open>new.df.csv\<close> has exactly the columns book_num, chapter_num,
  imdb_rating, character_words and season-episode. The header written for the example
  scenario has six fields: \<^verbatim>\<open>to_csv\<close> writes the index as a first, unnamed column.
\<close>

theorem output_file_columns_counterexample:
  "map_option header
     (fst (run split_ws stop_words_sample neutral_polarity zero_affect Map.empty two_episodes)
        ''new.df.csv'') =
     Some ['''', ''book_num'', ''chapter_num'', ''imdb_rating'', ''character_words'',
           ''season-episode''] \<and>
   map_option header
     (fst (run split_ws stop_words_sample neutral_polarity zero_affect Map.empty two_episodes)
        ''new.df.csv'') \<noteq> Some new_df_columns"
  by (simp add: run_def Let_def to_csv_def new_df_columns_def)

text \<open>
  C8, amended: whatever files exist before, after a run the file \<^verbatim>\<open>new.df.csv\<close> holds
  the table \<^verbatim>\<open>new_df\<close> with an unnamed index column followed by the columns book_num,
  chapter_num, imdb_rating, character_words and season-episode.
\<close>

theorem output_file_shape:
  "fst (run nlp stop_words polarity_scores s fs avatar) ''new.df.csv'' =
     Some \<lparr>header = ['''', ''book_num'', ''chapter_num'', ''imdb_rating'', ''character_words'',
                     ''season-episode''],
           body = map csv_line (enumerate 0 (aggregator avatar))\<rparr>"
  by (simp add: run_def Let_def to_csv_def new_df_columns_def)

theorem output_file_shape_witness:
  "fst (run split_ws stop_words_sample neutral_polarity zero_affect
          [''new.df.csv'' \<mapsto> \<lparr>header = [''old''], body = []\<rparr>] two_episodes) ''new.df.csv'' =
     Some \<lparr>header = ['''', ''book_num'', ''chapter_num'', ''imdb_rating'', ''character_words'',
                     ''season-episode''],
           body = [[IntCell 0, IntCell 1, IntCell 1, NumCell (17 / 2),
                    StrCell ''Hello world.'', StrCell ''1-1''],
                   [IntCell 1, IntCell 1, IntCell 2, NumCell 9,
                    StrCell ''Goodbye world.'', StrCell ''1-2'']]\<rparr>"
  using output_file_shape [of split_ws stop_words_sample neutral_polarity zero_affect
      "[''new.df.csv'' \<mapsto> \<lparr>header = [''old''], body = []\<rparr>]" two_episodes]
  by (simp add: two_episodes_def aggregator_eval csv_line_def enumerate_eq_zip)

text \<open>
  C10: the name \<open>s\<close> is bound nowhere in the script, so whenever the normalizer returns
  at least one cleaned text, the first pass through the loop of lines 87 to 97 raises a
  name error, and the run ends with it instead of a final table.
\<close>

theorem unbound_name_s:
  assumes "normalizer nlp stop_words (aggregator avatar) \<noteq> []"
  shows "\<not> name_bound ''s'' \<and>
         other_stage s (normalizer nlp stop_words (aggregator avatar)) = Inl (NameError ''s'') \<and>
         snd (run nlp stop_words polarity_scores s fs avatar) = Inl (NameError ''s'')"
  using assms by (simp add: s_unbound other_stage_def other_loop_fails run_fails)

theorem unbound_name_s_witness:
  "normalizer split_ws stop_words_sample (aggregator two_episodes) \<noteq> [] \<and>
   snd (run split_ws stop_words_sample neutral_polarity zero_affect Map.empty two_episodes) =
     Inl (NameError ''s'')"
proof -
  have "normalizer split_ws stop_words_sample (aggregator two_episodes) =
          [''hello world'', ''goodbye world'']"
    by (simp add: two_episodes_def stop_words_sample_def aggregator_eval normalizer_eval)
  then have ne: "normalizer split_ws stop_words_sample (aggregator two_episodes) \<noteq> []"
    by simp
  from unbound_name_s [OF ne] ne show ?thesis by simp
qed

end
